theory Spec2Isabelle
  imports Complex_Main "HOL-Library.AList" "HOL-Library.Sublist"
begin

section \<open>Values\<close>

text \<open>
  Both scripts build Python dictionaries, send them as JSON and read JSON back.
  A Python \<open>float\<close> is a finite number, an infinity or NaN; the finite ones are
  idealised as reals (rounding error of the binary format is not modelled).
  A dictionary is an association list in insertion order, the first binding of a key
  being the one that counts.
\<close>

datatype pyfloat = Finite real | PosInf | NegInf | NaN

datatype json =
    JNull
  | JBool bool
  | JInt int
  | JFloat pyfloat
  | JStr string
  | JList "json list"
  | JObj "(string \<times> json) list"

type_synonym dict = "(string \<times> json) list"

text \<open>\<open>a != b\<close> on floats: NaN differs from everything, itself included.\<close>

definition float_ne :: "pyfloat \<Rightarrow> pyfloat \<Rightarrow> bool" where
  "float_ne a b = (a = NaN \<or> b = NaN \<or> a \<noteq> b)"

text \<open>\<open>d[k] = v\<close>: an existing key keeps its place, a new one goes to the end.\<close>

definition setitem :: "dict \<Rightarrow> string \<Rightarrow> json \<Rightarrow> dict" where
  "setitem d k v = AList.update k v d"

text \<open>\<open>k in d\<close> and the value bound to \<open>k\<close>.\<close>

definition has_key :: "dict \<Rightarrow> string \<Rightarrow> bool" where
  "has_key d k = (map_of d k \<noteq> None)"

text \<open>Truthiness of the optional arguments, as \<open>if x:\<close> tests it.\<close>

definition truthy_int :: "int option \<Rightarrow> bool" where
  "truthy_int x = (case x of None \<Rightarrow> False | Some i \<Rightarrow> i \<noteq> 0)"

definition truthy_str :: "string option \<Rightarrow> bool" where
  "truthy_str x = (case x of None \<Rightarrow> False | Some s \<Rightarrow> s \<noteq> [])"

definition truthy_list :: "string list option \<Rightarrow> bool" where
  "truthy_list x = (case x of None \<Rightarrow> False | Some l \<Rightarrow> l \<noteq> [])"

text \<open>An optional argument as the value Python holds: \<open>None\<close> or the value.\<close>

definition json_of_int_opt :: "int option \<Rightarrow> json" where
  "json_of_int_opt x = (case x of None \<Rightarrow> JNull | Some i \<Rightarrow> JInt i)"

definition json_of_str_opt :: "string option \<Rightarrow> json" where
  "json_of_str_opt x = (case x of None \<Rightarrow> JNull | Some s \<Rightarrow> JStr s)"

definition json_of_stop :: "string list option \<Rightarrow> json" where
  "json_of_stop x = (case x of None \<Rightarrow> JNull | Some l \<Rightarrow> JList (map JStr l))"

section \<open>prompt_llm.py: the payload builders\<close>

text \<open>
  The keyword arguments of \<open>prompt_completion\<close>, with the types of its signature.
  \<open>base_url\<close> is kept apart: it only names the endpoint.
\<close>

record completion_args =
  model_name :: string
  prompt :: string
  max_tokens :: int
  temperature :: pyfloat
  top_p :: pyfloat
  top_k :: int
  frequency_penalty :: pyfloat
  presence_penalty :: pyfloat
  repetition_penalty :: pyfloat
  stop :: "string list option"
  stream :: bool
  n :: int
  best_of :: "int option"
  logprobs :: "int option"
  echo :: bool
  min_tokens :: int
  use_beam_search :: bool
  length_penalty :: pyfloat

text \<open>
  A Python \<open>if c:\<close> with no \<open>else\<close> whose body updates the dictionary: the body runs
  when \<open>c\<close> holds and the dictionary is left alone otherwise.
\<close>

definition py_if :: "bool \<Rightarrow> (dict \<Rightarrow> dict) \<Rightarrow> dict \<Rightarrow> dict" where
  "py_if c body d = (if c then body d else d)"

text \<open>Lines 100-128 of \<open>prompt_completion\<close>: the dictionary literal, then the optional keys.\<close>

definition completion_payload :: "completion_args \<Rightarrow> dict" where
  "completion_payload a =
    (let payload =
       [(''model'', JStr (model_name a)),
        (''prompt'', JStr (prompt a)),
        (''max_tokens'', JInt (max_tokens a)),
        (''temperature'', JFloat (temperature a)),
        (''top_p'', JFloat (top_p a)),
        (''frequency_penalty'', JFloat (frequency_penalty a)),
        (''presence_penalty'', JFloat (presence_penalty a)),
        (''stream'', JBool (stream a)),
        (''n'', JInt (n a)),
        (''echo'', JBool (echo a))];
     payload = py_if (top_k a > 0)
                 (\<lambda>p. setitem p ''top_k'' (JInt (top_k a))) payload;
     payload = py_if (float_ne (repetition_penalty a) (Finite 1))
                 (\<lambda>p. setitem p ''repetition_penalty'' (JFloat (repetition_penalty a))) payload;
     payload = py_if (truthy_list (stop a))
                 (\<lambda>p. setitem p ''stop'' (json_of_stop (stop a))) payload;
     payload = py_if (truthy_int (best_of a))
                 (\<lambda>p. setitem p ''best_of'' (json_of_int_opt (best_of a))) payload;
     payload = py_if (truthy_int (logprobs a))
                 (\<lambda>p. setitem p ''logprobs'' (json_of_int_opt (logprobs a))) payload;
     payload = py_if (min_tokens a > 0)
                 (\<lambda>p. setitem p ''min_tokens'' (JInt (min_tokens a))) payload;
     payload = py_if (use_beam_search a)
                 (\<lambda>p. setitem (setitem p ''use_beam_search'' (JBool (use_beam_search a)))
                        ''length_penalty'' (JFloat (length_penalty a))) payload
     in payload)"

text \<open>The keyword arguments of \<open>prompt_chat\<close>.\<close>

record chat_args =
  c_model_name :: string
  c_system_message :: "string option"
  c_user_message :: string
  c_max_tokens :: int
  c_temperature :: pyfloat
  c_top_p :: pyfloat
  c_top_k :: int
  c_frequency_penalty :: pyfloat
  c_presence_penalty :: pyfloat
  c_repetition_penalty :: pyfloat
  c_stop :: "string list option"
  c_stream :: bool
  c_n :: int
  c_logprobs :: "int option"

text \<open>Lines 170-173 of \<open>prompt_chat\<close>.\<close>

definition chat_messages :: "string option \<Rightarrow> string \<Rightarrow> json list" where
  "chat_messages system_message user_message =
    (let messages = [];
         messages = (if truthy_str system_message
                     then messages @ [JObj [(''role'', JStr ''system''),
                                            (''content'', json_of_str_opt system_message)]]
                     else messages);
         messages = messages @ [JObj [(''role'', JStr ''user''), (''content'', JStr user_message)]]
     in messages)"

text \<open>Lines 175-195 of \<open>prompt_chat\<close>.\<close>

definition chat_payload :: "chat_args \<Rightarrow> dict" where
  "chat_payload a =
    (let payload =
       [(''model'', JStr (c_model_name a)),
        (''messages'', JList (chat_messages (c_system_message a) (c_user_message a))),
        (''max_tokens'', JInt (c_max_tokens a)),
        (''temperature'', JFloat (c_temperature a)),
        (''top_p'', JFloat (c_top_p a)),
        (''frequency_penalty'', JFloat (c_frequency_penalty a)),
        (''presence_penalty'', JFloat (c_presence_penalty a)),
        (''stream'', JBool (c_stream a)),
        (''n'', JInt (c_n a))];
     payload = py_if (c_top_k a > 0)
                 (\<lambda>p. setitem p ''top_k'' (JInt (c_top_k a))) payload;
     payload = py_if (float_ne (c_repetition_penalty a) (Finite 1))
                 (\<lambda>p. setitem p ''repetition_penalty'' (JFloat (c_repetition_penalty a))) payload;
     payload = py_if (truthy_list (c_stop a))
                 (\<lambda>p. setitem p ''stop'' (json_of_stop (c_stop a))) payload;
     payload = py_if (truthy_int (c_logprobs a))
                 (\<lambda>p. setitem p ''logprobs'' (json_of_int_opt (c_logprobs a))) payload
     in payload)"

section \<open>Python operations on decoded JSON\<close>

text \<open>
  A decoded response is any JSON value, so each operation the scripts apply to it is
  modelled on every kind of value, with the exception Python raises as a result.
\<close>

datatype py_error = KeyError | TypeError | AttributeError | IndexError | ZeroDivisionError

definition ebind :: "py_error + 'a \<Rightarrow> ('a \<Rightarrow> py_error + 'b) \<Rightarrow> py_error + 'b" where
  "ebind m f = (case m of Inl e \<Rightarrow> Inl e | Inr x \<Rightarrow> f x)"

text \<open>\<open>k in x\<close> for a string \<open>k\<close>: a key of a dict, an element of a list, a substring of a string.\<close>

fun py_in :: "string \<Rightarrow> json \<Rightarrow> py_error + bool" where
  "py_in k (JObj d) = Inr (has_key d k)"
| "py_in k (JList xs) = Inr (JStr k \<in> set xs)"
| "py_in k (JStr s) = Inr (sublist k s)"
| "py_in k _ = Inl TypeError"

text \<open>\<open>x[k]\<close> for a string \<open>k\<close>.\<close>

fun py_getitem :: "json \<Rightarrow> string \<Rightarrow> py_error + json" where
  "py_getitem (JObj d) k = (case map_of d k of None \<Rightarrow> Inl KeyError | Some v \<Rightarrow> Inr v)"
| "py_getitem _ k = Inl TypeError"

text \<open>\<open>x[0]\<close>; the keys of a decoded dict are strings, so \<open>0\<close> is never one of them.\<close>

fun py_first :: "json \<Rightarrow> py_error + json" where
  "py_first (JList []) = Inl IndexError"
| "py_first (JList (x # xs)) = Inr x"
| "py_first (JStr []) = Inl IndexError"
| "py_first (JStr (c # cs)) = Inr (JStr [c])"
| "py_first (JObj d) = Inl KeyError"
| "py_first _ = Inl TypeError"

text \<open>\<open>len(x)\<close>.\<close>

fun py_len :: "json \<Rightarrow> py_error + nat" where
  "py_len (JList xs) = Inr (length xs)"
| "py_len (JStr s) = Inr (length s)"
| "py_len (JObj d) = Inr (length (remdups (map fst d)))"
| "py_len _ = Inl TypeError"

text \<open>The elements \<open>for ... in x\<close> runs over: those of a list, the characters of a string, the keys of a dict.\<close>

fun py_iter :: "json \<Rightarrow> py_error + json list" where
  "py_iter (JList xs) = Inr xs"
| "py_iter (JStr s) = Inr (map (\<lambda>c. JStr [c]) s)"
| "py_iter (JObj d) = Inr (map JStr (remdups (map fst d)))"
| "py_iter _ = Inl TypeError"

text \<open>\<open>x.get(k, default)\<close>: only a dict has the method.\<close>

fun py_get :: "json \<Rightarrow> string \<Rightarrow> json \<Rightarrow> py_error + json" where
  "py_get (JObj d) k dflt = Inr (case map_of d k of None \<Rightarrow> dflt | Some v \<Rightarrow> v)"
| "py_get _ k dflt = Inl AttributeError"

text \<open>\<open>x > 0\<close>: defined on numbers (a bool is one), a TypeError elsewhere.\<close>

fun py_gt0 :: "json \<Rightarrow> py_error + bool" where
  "py_gt0 (JInt i) = Inr (0 < i)"
| "py_gt0 (JBool b) = Inr b"
| "py_gt0 (JFloat (Finite r)) = Inr (0 < r)"
| "py_gt0 (JFloat PosInf) = Inr True"
| "py_gt0 (JFloat NegInf) = Inr False"
| "py_gt0 (JFloat NaN) = Inr False"
| "py_gt0 _ = Inl TypeError"

text \<open>\<open>x / t\<close> for a finite float \<open>t\<close>.\<close>

fun py_truediv :: "json \<Rightarrow> real \<Rightarrow> py_error + pyfloat" where
  "py_truediv (JInt i) t = (if t = 0 then Inl ZeroDivisionError else Inr (Finite (real_of_int i / t)))"
| "py_truediv (JBool b) t =
     (if t = 0 then Inl ZeroDivisionError else Inr (Finite ((if b then 1 else 0) / t)))"
| "py_truediv (JFloat (Finite r)) t = (if t = 0 then Inl ZeroDivisionError else Inr (Finite (r / t)))"
| "py_truediv (JFloat PosInf) t =
     (if t = 0 then Inl ZeroDivisionError else Inr (if 0 < t then PosInf else NegInf))"
| "py_truediv (JFloat NegInf) t =
     (if t = 0 then Inl ZeroDivisionError else Inr (if 0 < t then NegInf else PosInf))"
| "py_truediv (JFloat NaN) t = (if t = 0 then Inl ZeroDivisionError else Inr NaN)"
| "py_truediv _ t = Inl TypeError"

text \<open>Truth value of a decoded value.\<close>

fun py_truthy :: "json \<Rightarrow> bool" where
  "py_truthy JNull = False"
| "py_truthy (JBool b) = b"
| "py_truthy (JInt i) = (i \<noteq> 0)"
| "py_truthy (JFloat f) = float_ne f (Finite 0)"
| "py_truthy (JStr s) = (s \<noteq> [])"
| "py_truthy (JList xs) = (xs \<noteq> [])"
| "py_truthy (JObj d) = (d \<noteq> [])"

text \<open>\<open>round(x, nd)\<close>: to the nearest multiple of \<open>10^-nd\<close>, a tie going to the even one.\<close>

definition round_half_even :: "real \<Rightarrow> int" where
  "round_half_even s =
    (let f = \<lfloor>s\<rfloor>; d = s - of_int f
     in if d < 1 / 2 then f else if 1 / 2 < d then f + 1 else if even f then f else f + 1)"

definition py_round :: "pyfloat \<Rightarrow> nat \<Rightarrow> pyfloat" where
  "py_round x nd =
    (case x of Finite r \<Rightarrow> Finite (of_int (round_half_even (r * 10 ^ nd)) / 10 ^ nd) | _ \<Rightarrow> x)"

section \<open>What a run does\<close>

text \<open>
  A printed line is a sequence of pieces: literal text, and values that Python formats
  (\<open>str\<close> of a value, a float with a fixed number of decimals, \<open>json.dumps\<close> of a value,
  the text of an exception, the usage text of argparse).
\<close>

datatype piece =
    Txt string
  | Val json
  | Fixed nat pyfloat
  | Dump json
  | Exc
  | Usage

type_synonym line = "piece list"

datatype request = GET string | POST string dict

text \<open>
  The reply to a request: \<open>RequestException\<close> when the call or \<open>raise_for_status\<close> raises
  (no connection, timeout, an error status), else the body, \<open>None\<close> when it is not JSON.
\<close>

datatype http_reply = RequestException | Reply "json option"

text \<open>The server, and the difference of the two \<open>time.time()\<close> readings around a POST.\<close>

record world =
  http_get :: "string \<Rightarrow> http_reply"
  http_post :: "string \<Rightarrow> dict \<Rightarrow> http_reply"
  elapsed :: real

text \<open>A call ends by returning, by \<open>sys.exit\<close> or by an exception nobody catches.\<close>

datatype 'a ending = Return 'a | Exit int | Raise py_error

record 'a run =
  sent :: "request list"
  printed :: "line list"
  ending :: "'a ending"

definition ret :: "'a \<Rightarrow> 'a run" where
  "ret x = \<lparr>sent = [], printed = [], ending = Return x\<rparr>"

definition prints :: "line list \<Rightarrow> unit run" where
  "prints ls = \<lparr>sent = [], printed = ls, ending = Return ()\<rparr>"

definition sys_exit :: "int \<Rightarrow> 'a run" where
  "sys_exit c = \<lparr>sent = [], printed = [], ending = Exit c\<rparr>"

definition lift :: "py_error + 'a \<Rightarrow> 'a run" where
  "lift m = (case m of Inl e \<Rightarrow> \<lparr>sent = [], printed = [], ending = Raise e\<rparr> | Inr x \<Rightarrow> ret x)"

text \<open>One statement after another: what follows runs only when the first part returns.\<close>

definition seq :: "'a run \<Rightarrow> ('a \<Rightarrow> 'b run) \<Rightarrow> 'b run" where
  "seq m f =
    (case ending m of
       Return x \<Rightarrow>
         (let r = f x in \<lparr>sent = sent m @ sent r, printed = printed m @ printed r, ending = ending r\<rparr>)
     | Exit c \<Rightarrow> \<lparr>sent = sent m, printed = printed m, ending = Exit c\<rparr>
     | Raise e \<Rightarrow> \<lparr>sent = sent m, printed = printed m, ending = Raise e\<rparr>)"

text \<open>The non-ASCII characters of the messages, as their UTF-8 bytes.\<close>

definition cross_mark :: string where
  "cross_mark = [CHR 0xE2, CHR 0x9D, CHR 0x8C]"

definition check_mark :: string where
  "check_mark = [CHR 0xE2, CHR 0x9C, CHR 0x85]"

definition warning_sign :: string where
  "warning_sign = [CHR 0xE2, CHR 0x9A, CHR 0xA0, CHR 0xEF, CHR 0xB8, CHR 0x8F]"

definition robot_face :: string where
  "robot_face = [CHR 0xF0, CHR 0x9F, CHR 0xA4, CHR 0x96]"

definition test_tube :: string where
  "test_tube = [CHR 0xF0, CHR 0x9F, CHR 0xA7, CHR 0xAA]"

definition newline :: string where
  "newline = [CHR 0x0A]"

definition double_rule :: "nat \<Rightarrow> string" where
  "double_rule k = replicate k (CHR ''='')"

definition light_rule :: "nat \<Rightarrow> string" where
  "light_rule k = concat (replicate k [CHR 0xE2, CHR 0x94, CHR 0x80])"

section \<open>prompt_llm.py: the requests\<close>

text \<open>
  Lines 130-143 of \<open>prompt_completion\<close>. A body that is not JSON makes
  \<open>response.json()\<close> raise an exception of the \<open>requests\<close> library, which the
  \<open>except\<close> clause catches with the others.
\<close>

definition request_error :: "request \<Rightarrow> 'a run" where
  "request_error r =
     \<lparr>sent = [r], printed = [[Txt (cross_mark @ '' Error: ''), Exc]], ending = Exit 1\<rparr>"

definition post_json :: "world \<Rightarrow> string \<Rightarrow> dict \<Rightarrow> (json \<times> real) run" where
  "post_json w url payload =
    (case http_post w url payload of
       RequestException \<Rightarrow> request_error (POST url payload)
     | Reply None \<Rightarrow> request_error (POST url payload)
     | Reply (Some body) \<Rightarrow>
         \<lparr>sent = [POST url payload], printed = [], ending = Return (body, elapsed w)\<rparr>)"

definition prompt_completion :: "world \<Rightarrow> string \<Rightarrow> completion_args \<Rightarrow> (json \<times> real) run" where
  "prompt_completion w base_url a =
     post_json w (base_url @ ''/v1/completions'') (completion_payload a)"

definition prompt_chat :: "world \<Rightarrow> string \<Rightarrow> chat_args \<Rightarrow> (json \<times> real) run" where
  "prompt_chat w base_url a =
     post_json w (base_url @ ''/v1/chat/completions'') (chat_payload a)"

section \<open>prompt_llm.py: print_response\<close>

datatype mode = Completion | Chat

text \<open>
  The test \<open>k in x and len(x[k]) > 0\<close>, which both scripts apply to a response
  (with \<open>"choices"\<close>, and with \<open>"data"\<close> for the list of models).
\<close>

definition has_nonempty :: "string \<Rightarrow> json \<Rightarrow> py_error + bool" where
  "has_nonempty k x =
     ebind (py_in k x) (\<lambda>present.
       if present
       then ebind (py_getitem x k) (\<lambda>v.
            ebind (py_len v) (\<lambda>size. Inr (0 < size)))
       else Inr False)"

text \<open>The body of the loop over the choices, for the choice of index \<open>i\<close>.\<close>

definition choice_text :: "mode \<Rightarrow> json \<Rightarrow> py_error + json" where
  "choice_text m choice =
     (case m of
        Chat \<Rightarrow> ebind (py_getitem choice ''message'') (\<lambda>message. py_getitem message ''content'')
      | Completion \<Rightarrow> py_getitem choice ''text'')"

definition choice_metadata :: "json \<Rightarrow> unit run" where
  "choice_metadata choice =
     seq (prints [[Txt (newline @ light_rule 60)]]) (\<lambda>_.
     seq (lift (py_get choice ''finish_reason'' (JStr ''N/A''))) (\<lambda>reason.
     seq (prints [[Txt ''Finish reason: '', Val reason]]) (\<lambda>_.
     seq (lift (ebind (py_in ''logprobs'' choice) (\<lambda>present.
                  if present
                  then ebind (py_getitem choice ''logprobs'') (\<lambda>lp. Inr (py_truthy lp))
                  else Inr False))) (\<lambda>available.
     if available then prints [[Txt ''Logprobs available: Yes'']] else ret ()))))"

definition print_choice :: "mode \<Rightarrow> bool \<Rightarrow> json \<Rightarrow> nat \<Rightarrow> json \<Rightarrow> unit run" where
  "print_choice m show_metadata response i choice =
     seq (lift (choice_text m choice)) (\<lambda>content.
     seq (lift (ebind (py_getitem response ''choices'') py_len)) (\<lambda>k.
     seq (if 1 < k
          then prints [[Txt (newline @ double_rule 60)],
                       [Txt ''Completion '', Val (JInt (int i + 1)), Txt '':''],
                       [Txt (double_rule 60)]]
          else ret ()) (\<lambda>_.
     seq (prints [[Val content]]) (\<lambda>_.
     if show_metadata then choice_metadata choice else ret ()))))"

fun print_choices :: "mode \<Rightarrow> bool \<Rightarrow> json \<Rightarrow> nat \<Rightarrow> json list \<Rightarrow> unit run" where
  "print_choices m show_metadata response i [] = ret ()"
| "print_choices m show_metadata response i (choice # rest) =
     seq (print_choice m show_metadata response i choice) (\<lambda>_.
       print_choices m show_metadata response (Suc i) rest)"

text \<open>Lines 217-250. The two modes differ in where the text of a choice is read.\<close>

definition print_generated :: "json \<Rightarrow> mode \<Rightarrow> bool \<Rightarrow> unit run" where
  "print_generated response m show_metadata =
     seq (lift (has_nonempty ''choices'' response)) (\<lambda>some.
       if some
       then seq (lift (ebind (py_getitem response ''choices'') py_iter)) (\<lambda>choices.
              print_choices m show_metadata response 0 choices)
       else prints [[Txt (cross_mark @ '' No response generated'')]])"

text \<open>Lines 252-268.\<close>

definition print_tokens_per_second :: "json \<Rightarrow> real \<Rightarrow> unit run" where
  "print_tokens_per_second response elapsed_time =
     seq (lift (py_in ''usage'' response)) (\<lambda>present.
       if present
       then seq (lift (ebind (py_getitem response ''usage'') (\<lambda>usage.
                         py_get usage ''completion_tokens'' (JInt 0)))) (\<lambda>completion_tokens.
            seq (lift (py_gt0 completion_tokens)) (\<lambda>positive.
              if positive \<and> 0 < elapsed_time
              then seq (lift (py_truediv completion_tokens elapsed_time)) (\<lambda>tokens_per_sec.
                     prints [[Txt ''  Tokens per second: '', Fixed 2 tokens_per_sec]])
              else ret ()))
       else ret ())"

definition usage_line :: "string \<Rightarrow> json \<Rightarrow> string \<Rightarrow> unit run" where
  "usage_line label response k =
     seq (lift (ebind (py_getitem response ''usage'') (\<lambda>usage. py_get usage k (JStr ''N/A'')))) (\<lambda>v.
       prints [[Txt label, Val v]])"

definition print_usage :: "json \<Rightarrow> unit run" where
  "print_usage response =
     seq (lift (py_in ''usage'' response)) (\<lambda>present.
       if present
       then seq (prints [[Txt (newline @ light_rule 60)], [Txt ''Usage Statistics:'']]) (\<lambda>_.
            seq (usage_line ''  Prompt tokens: '' response ''prompt_tokens'') (\<lambda>_.
            seq (usage_line ''  Completion tokens: '' response ''completion_tokens'') (\<lambda>_.
                 usage_line ''  Total tokens: '' response ''total_tokens'')))
       else ret ())"

definition print_response :: "json \<Rightarrow> mode \<Rightarrow> real \<Rightarrow> bool \<Rightarrow> unit run" where
  "print_response response m elapsed_time show_metadata =
     seq (print_generated response m show_metadata) (\<lambda>_.
       if show_metadata
       then seq (prints [[Txt (newline @ light_rule 60)],
                         [Txt ''Performance Metrics:''],
                         [Txt ''  Request latency: '', Fixed 3 (Finite elapsed_time), Txt ''s'']]) (\<lambda>_.
            seq (print_tokens_per_second response elapsed_time) (\<lambda>_.
                 print_usage response))
       else ret ())"

section \<open>prompt_llm.py: main\<close>

text \<open>The namespace \<open>parse_args\<close> returns, one field per option.\<close>

record args =
  arg_url :: string
  arg_model :: string
  arg_mode :: mode
  arg_prompt :: "string option"
  arg_system :: "string option"
  arg_user_message :: "string option"
  arg_max_tokens :: int
  arg_min_tokens :: int
  arg_temperature :: pyfloat
  arg_top_p :: pyfloat
  arg_top_k :: int
  arg_frequency_penalty :: pyfloat
  arg_presence_penalty :: pyfloat
  arg_repetition_penalty :: pyfloat
  arg_stop :: "string list option"
  arg_n :: int
  arg_best_of :: "int option"
  arg_use_beam_search :: bool
  arg_length_penalty :: pyfloat
  arg_echo :: bool
  arg_logprobs :: "int option"
  arg_stream :: bool
  arg_show_metadata :: bool
  arg_json :: bool

text \<open>\<open>parser.error(message)\<close> prints the usage and the message and exits with status 2.\<close>

definition parser_error :: "string \<Rightarrow> 'a run" where
  "parser_error message = \<lparr>sent = [], printed = [[Usage, Txt message]], ending = Exit 2\<rparr>"

text \<open>A required argument once validation has passed: a string by then.\<close>

definition validated :: "string option \<Rightarrow> string" where
  "validated x = (case x of Some s \<Rightarrow> s | None \<Rightarrow> [])"

definition mode_upper :: "mode \<Rightarrow> string" where
  "mode_upper m = (case m of Completion \<Rightarrow> ''COMPLETION'' | Chat \<Rightarrow> ''CHAT'')"

text \<open>Lines 443-445.\<close>

definition stream_warning :: "args \<Rightarrow> args run" where
  "stream_warning a =
     (if arg_stream a
      then seq (prints [[Txt (warning_sign @ ''  Warning: Streaming is not implemented in this script'')]])
             (\<lambda>_. ret (a\<lparr>arg_stream := False\<rparr>))
      else ret a)"

text \<open>Lines 447-469.\<close>

definition display_configuration :: "args \<Rightarrow> unit run" where
  "display_configuration a =
     (if \<not> arg_json a
      then prints
        ([[Txt (newline @ double_rule 60)],
          [Txt (robot_face @ '' LLM Prompt - ''), Txt (mode_upper (arg_mode a)), Txt '' Mode''],
          [Txt (double_rule 60)],
          [Txt ''URL: '', Txt (arg_url a)],
          [Txt ''Model: '', Txt (arg_model a)],
          [Txt ''Max tokens: '', Val (JInt (arg_max_tokens a))],
          [Txt ''Temperature: '', Val (JFloat (arg_temperature a))],
          [Txt ''Top-p: '', Val (JFloat (arg_top_p a))]]
         @ (if 0 < arg_top_k a then [[Txt ''Top-k: '', Val (JInt (arg_top_k a))]] else [])
         @ (if float_ne (arg_frequency_penalty a) (Finite 0)
            then [[Txt ''Frequency penalty: '', Val (JFloat (arg_frequency_penalty a))]] else [])
         @ (if float_ne (arg_presence_penalty a) (Finite 0)
            then [[Txt ''Presence penalty: '', Val (JFloat (arg_presence_penalty a))]] else [])
         @ (if float_ne (arg_repetition_penalty a) (Finite 1)
            then [[Txt ''Repetition penalty: '', Val (JFloat (arg_repetition_penalty a))]] else [])
         @ (if truthy_list (arg_stop a)
            then [[Txt ''Stop sequences: '', Val (json_of_stop (arg_stop a))]] else [])
         @ (if 1 < arg_n a then [[Txt ''Completions: '', Val (JInt (arg_n a))]] else [])
         @ [[Txt (double_rule 60 @ newline)]])
      else ret ())"

text \<open>Lines 472-523: the request of the chosen mode.\<close>

definition chat_args_of :: "args \<Rightarrow> chat_args" where
  "chat_args_of a =
     \<lparr>c_model_name = arg_model a,
      c_system_message = arg_system a,
      c_user_message = validated (arg_user_message a),
      c_max_tokens = arg_max_tokens a,
      c_temperature = arg_temperature a,
      c_top_p = arg_top_p a,
      c_top_k = arg_top_k a,
      c_frequency_penalty = arg_frequency_penalty a,
      c_presence_penalty = arg_presence_penalty a,
      c_repetition_penalty = arg_repetition_penalty a,
      c_stop = arg_stop a,
      c_stream = arg_stream a,
      c_n = arg_n a,
      c_logprobs = arg_logprobs a\<rparr>"

definition completion_args_of :: "args \<Rightarrow> completion_args" where
  "completion_args_of a =
     \<lparr>model_name = arg_model a,
      prompt = validated (arg_prompt a),
      max_tokens = arg_max_tokens a,
      temperature = arg_temperature a,
      top_p = arg_top_p a,
      top_k = arg_top_k a,
      frequency_penalty = arg_frequency_penalty a,
      presence_penalty = arg_presence_penalty a,
      repetition_penalty = arg_repetition_penalty a,
      stop = arg_stop a,
      stream = arg_stream a,
      n = arg_n a,
      best_of = arg_best_of a,
      logprobs = arg_logprobs a,
      echo = arg_echo a,
      min_tokens = arg_min_tokens a,
      use_beam_search = arg_use_beam_search a,
      length_penalty = arg_length_penalty a\<rparr>"

definition make_request :: "world \<Rightarrow> args \<Rightarrow> (json \<times> real) run" where
  "make_request w a =
     (if arg_mode a = Chat
      then seq (if \<not> arg_json a
                then prints
                  ((if truthy_str (arg_system a)
                    then [[Txt ''System: '', Txt (validated (arg_system a))]] else [])
                   @ [[Txt ''User: '', Txt (validated (arg_user_message a)), Txt newline],
                      [Txt (light_rule 60)],
                      [Txt ''Assistant:'']])
                else ret ()) (\<lambda>_.
           prompt_chat w (arg_url a) (chat_args_of a))
      else seq (if \<not> arg_json a
                then prints
                  [[Txt ''Prompt: '', Txt (validated (arg_prompt a)), Txt newline],
                   [Txt (light_rule 60)],
                   [Txt ''Response:'']]
                else ret ()) (\<lambda>_.
           prompt_completion w (arg_url a) (completion_args_of a)))"

text \<open>
  Lines 531-535: the value of \<open>tokens_per_second\<close>. The conjunction stops at the first
  false operand, so the response is not read when no time has elapsed.
\<close>

definition completion_tokens_of :: "json \<Rightarrow> py_error + json" where
  "completion_tokens_of response =
     ebind (py_get response ''usage'' (JObj [])) (\<lambda>usage. py_get usage ''completion_tokens'' (JInt 0))"

definition tokens_per_second :: "json \<Rightarrow> real \<Rightarrow> py_error + json" where
  "tokens_per_second response elapsed_time =
     ebind (if 0 < elapsed_time then ebind (completion_tokens_of response) py_gt0 else Inr False)
       (\<lambda>measurable.
         if measurable
         then ebind (completion_tokens_of response) (\<lambda>completion_tokens.
              ebind (py_truediv completion_tokens elapsed_time) (\<lambda>ratio.
                Inr (JFloat (py_round ratio 2))))
         else Inr JNull)"

text \<open>Lines 528-536: the copy of the response with its \<open>_timing\<close> entry.\<close>

definition timing :: "json \<Rightarrow> real \<Rightarrow> py_error + json" where
  "timing response elapsed_time =
     ebind (tokens_per_second response elapsed_time) (\<lambda>tps.
       Inr (JObj [(''request_latency_seconds'', JFloat (py_round (Finite elapsed_time) 3)),
                  (''tokens_per_second'', tps)]))"

definition response_with_timing :: "json \<Rightarrow> real \<Rightarrow> py_error + json" where
  "response_with_timing response elapsed_time =
     (case response of
        JObj d \<Rightarrow> ebind (timing response elapsed_time) (\<lambda>t. Inr (JObj (setitem d ''_timing'' t)))
      | JList xs \<Rightarrow> ebind (timing response elapsed_time) (\<lambda>t. Inl TypeError)
      | _ \<Rightarrow> Inl AttributeError)"

text \<open>Lines 525-540.\<close>

definition display_response :: "args \<Rightarrow> json \<Rightarrow> real \<Rightarrow> unit run" where
  "display_response a response elapsed_time =
     (if arg_json a
      then seq (lift (response_with_timing response elapsed_time)) (\<lambda>r. prints [[Dump r]])
      else seq (print_response response (arg_mode a) elapsed_time (arg_show_metadata a)) (\<lambda>_.
             prints [[Txt (newline @ double_rule 60 @ newline)]]))"

text \<open>\<open>main\<close>, from the parsed arguments on (line 437 to the end).\<close>

definition prompt_llm_main :: "world \<Rightarrow> args \<Rightarrow> unit run" where
  "prompt_llm_main w a =
     (if arg_mode a = Completion \<and> \<not> truthy_str (arg_prompt a)
      then parser_error ''--prompt is required for completion mode''
      else if arg_mode a = Chat \<and> \<not> truthy_str (arg_user_message a)
      then parser_error ''--user-message is required for chat mode''
      else seq (stream_warning a) (\<lambda>a.
           seq (display_configuration a) (\<lambda>_.
           seq (make_request w a) (\<lambda>(response, elapsed_time).
             display_response a response elapsed_time))))"

section \<open>test_llm_api.py\<close>

text \<open>
  Each probe sends one request and catches every exception, so it always returns a
  boolean. \<open>probe\<close> is what a probe reports: the request, one or more lines, the verdict.
\<close>

definition probe :: "request \<Rightarrow> line list \<Rightarrow> bool \<Rightarrow> bool run" where
  "probe r ls verdict = \<lparr>sent = [r], printed = ls, ending = Return verdict\<rparr>"

definition test_health :: "world \<Rightarrow> string \<Rightarrow> bool run" where
  "test_health w base_url =
    (let url = base_url @ ''/health''
     in case http_get w url of
          RequestException \<Rightarrow>
            probe (GET url) [[Txt (cross_mark @ '' Health check failed: ''), Exc]] False
        | Reply body \<Rightarrow>
            probe (GET url) [[Txt (check_mark @ '' Health check passed'')]] True)"

definition test_list_models :: "world \<Rightarrow> string \<Rightarrow> bool run" where
  "test_list_models w base_url =
    (let url = base_url @ ''/v1/models'';
         failed = probe (GET url) [[Txt (cross_mark @ '' List models failed: ''), Exc]] False
     in case http_get w url of
          RequestException \<Rightarrow> failed
        | Reply None \<Rightarrow> failed
        | Reply (Some data) \<Rightarrow>
            (case has_nonempty ''data'' data of
               Inl e \<Rightarrow> failed
             | Inr False \<Rightarrow>
                 probe (GET url) [[Txt (cross_mark @ '' No models found in response'')]] False
             | Inr True \<Rightarrow>
                 (case ebind (py_getitem data ''data'') (\<lambda>models.
                       ebind (py_first models) (\<lambda>first. py_getitem first ''id'')) of
                    Inl e \<Rightarrow> failed
                  | Inr model_id \<Rightarrow>
                      probe (GET url)
                        [[Txt (check_mark @ '' Models endpoint working - found model: ''),
                          Val model_id]] True)))"

definition test_chat_completion :: "world \<Rightarrow> string \<Rightarrow> string \<Rightarrow> bool run" where
  "test_chat_completion w base_url model =
    (let payload =
           [(''model'', JStr model),
            (''messages'',
               JList [JObj [(''role'', JStr ''user''),
                            (''content'', JStr ''What is 2+2? Answer in one short sentence.'')]]),
            (''max_tokens'', JInt 50),
            (''temperature'', JFloat (Finite (7 / 10)))];
         url = base_url @ ''/v1/chat/completions'';
         failed = probe (POST url payload) [[Txt (cross_mark @ '' Chat completion failed: ''), Exc]] False
     in case http_post w url payload of
          RequestException \<Rightarrow> failed
        | Reply None \<Rightarrow> failed
        | Reply (Some data) \<Rightarrow>
            (case has_nonempty ''choices'' data of
               Inl e \<Rightarrow> failed
             | Inr False \<Rightarrow>
                 probe (POST url payload) [[Txt (cross_mark @ '' No choices in response'')]] False
             | Inr True \<Rightarrow>
                 (case ebind (py_getitem data ''choices'') (\<lambda>choices.
                       ebind (py_first choices) (\<lambda>first.
                       ebind (py_getitem first ''message'') (\<lambda>message.
                         py_getitem message ''content''))) of
                    Inl e \<Rightarrow> failed
                  | Inr content \<Rightarrow>
                      probe (POST url payload)
                        [[Txt (check_mark @ '' Chat completion working'')],
                         [Txt ''   Response: '', Val content]] True)))"

definition test_text_completion :: "world \<Rightarrow> string \<Rightarrow> string \<Rightarrow> bool run" where
  "test_text_completion w base_url model =
    (let payload =
           [(''model'', JStr model),
            (''prompt'', JStr ''The capital of France is''),
            (''max_tokens'', JInt 10),
            (''temperature'', JFloat (Finite (1 / 10)))];
         url = base_url @ ''/v1/completions'';
         failed = probe (POST url payload) [[Txt (cross_mark @ '' Text completion failed: ''), Exc]] False
     in case http_post w url payload of
          RequestException \<Rightarrow> failed
        | Reply None \<Rightarrow> failed
        | Reply (Some data) \<Rightarrow>
            (case has_nonempty ''choices'' data of
               Inl e \<Rightarrow> failed
             | Inr False \<Rightarrow>
                 probe (POST url payload) [[Txt (cross_mark @ '' No choices in response'')]] False
             | Inr True \<Rightarrow>
                 (case ebind (py_getitem data ''choices'') (\<lambda>choices.
                       ebind (py_first choices) (\<lambda>first. py_getitem first ''text'')) of
                    Inl e \<Rightarrow> failed
                  | Inr text \<Rightarrow>
                      probe (POST url payload)
                        [[Txt (check_mark @ '' Text completion working'')],
                         [Txt ''   Response: '', Val text]] True)))"

text \<open>The namespace of the test script.\<close>

record test_args =
  t_url :: string
  t_model :: string
  t_skip_health :: bool

text \<open>Lines 162-176: the summary and the exit status.\<close>

definition passed :: "(string \<times> bool) list \<Rightarrow> nat" where
  "passed results = length (filter snd results)"

definition total :: "(string \<times> bool) list \<Rightarrow> nat" where
  "total results = length results"

definition result_line :: "string \<times> bool \<Rightarrow> line" where
  "result_line r =
     (case r of (test_name, success) \<Rightarrow>
        [Txt (if success then check_mark @ '' PASS'' else cross_mark @ '' FAIL''),
         Txt '' - '', Txt test_name])"

definition total_line :: "(string \<times> bool) list \<Rightarrow> line" where
  "total_line results =
     [Txt (newline @ ''Total: ''), Val (JInt (int (passed results))), Txt ''/'',
      Val (JInt (int (total results))), Txt '' tests passed'']"

definition summary :: "(string \<times> bool) list \<Rightarrow> unit run" where
  "summary results =
     seq (prints ([[Txt (newline @ double_rule 50)], [Txt ''Test Summary:''], [Txt (double_rule 50)]]
                  @ map result_line results
                  @ [total_line results, [Txt (double_rule 50 @ newline)]])) (\<lambda>_.
       sys_exit (if passed results = total results then 0 else 1))"

text \<open>\<open>main\<close> of the test script, from the parsed arguments on (line 145 to the end).\<close>

definition test_llm_api_main :: "world \<Rightarrow> test_args \<Rightarrow> unit run" where
  "test_llm_api_main w a =
     seq (prints [[Txt (newline @ test_tube @ '' Testing LLM API at: ''), Txt (t_url a), Txt newline]]) (\<lambda>_.
     seq (if \<not> t_skip_health a
          then seq (test_health w (t_url a)) (\<lambda>ok. ret [(''Health'', ok)])
          else ret []) (\<lambda>results.
     seq (test_list_models w (t_url a)) (\<lambda>ok.
       let results = results @ [(''List Models'', ok)] in
     seq (test_chat_completion w (t_url a) (t_model a)) (\<lambda>ok.
       let results = results @ [(''Chat Completion'', ok)] in
     seq (test_text_completion w (t_url a) (t_model a)) (\<lambda>ok.
       let results = results @ [(''Text Completion'', ok)] in
       summary results)))))"

section \<open>Shape of a response, and inputs the results are evaluated at\<close>

text \<open>
  The response envelope of the API holds its token counts in an object \<open>usage\<close>.
  \<open>usage_ok\<close> says that \<open>usage\<close>, when the response has it, is such an object, and that
  its \<open>completion_tokens\<close>, when it has one, is an integer; \<open>completion_count\<close> is that
  integer, 0 when either is missing.
\<close>

definition usage_ok :: "dict \<Rightarrow> bool" where
  "usage_ok d =
    (case map_of d ''usage'' of
       None \<Rightarrow> True
     | Some (JObj u) \<Rightarrow>
         (case map_of u ''completion_tokens'' of
            None \<Rightarrow> True
          | Some (JInt c) \<Rightarrow> True
          | Some other \<Rightarrow> False)
     | Some other \<Rightarrow> False)"

definition completion_count :: "dict \<Rightarrow> int" where
  "completion_count d =
    (case map_of d ''usage'' of
       Some (JObj u) \<Rightarrow> (case map_of u ''completion_tokens'' of Some (JInt c) \<Rightarrow> c | other \<Rightarrow> 0)
     | other \<Rightarrow> 0)"

text \<open>The defaults of the signatures and of the command line.\<close>

definition default_completion :: completion_args where
  "default_completion =
     \<lparr>model_name = ''meta-llama/Meta-Llama-3.1-8B-Instruct'',
      prompt = ''Hello'',
      max_tokens = 512,
      temperature = Finite (7 / 10),
      top_p = Finite 1,
      top_k = - 1,
      frequency_penalty = Finite 0,
      presence_penalty = Finite 0,
      repetition_penalty = Finite 1,
      stop = None,
      stream = False,
      n = 1,
      best_of = None,
      logprobs = None,
      echo = False,
      min_tokens = 0,
      use_beam_search = False,
      length_penalty = Finite 1\<rparr>"

definition beam_completion :: completion_args where
  "beam_completion = default_completion\<lparr>use_beam_search := True\<rparr>"

definition default_chat :: chat_args where
  "default_chat =
     \<lparr>c_model_name = ''meta-llama/Meta-Llama-3.1-8B-Instruct'',
      c_system_message = None,
      c_user_message = ''Hello'',
      c_max_tokens = 512,
      c_temperature = Finite (7 / 10),
      c_top_p = Finite 1,
      c_top_k = - 1,
      c_frequency_penalty = Finite 0,
      c_presence_penalty = Finite 0,
      c_repetition_penalty = Finite 1,
      c_stop = None,
      c_stream = False,
      c_n = 1,
      c_logprobs = None\<rparr>"

definition logprobs_chat :: chat_args where
  "logprobs_chat = default_chat\<lparr>c_logprobs := Some 5\<rparr>"

definition system_chat :: chat_args where
  "system_chat = default_chat\<lparr>c_system_message := Some ''Be brief''\<rparr>"

definition default_args :: args where
  "default_args =
     \<lparr>arg_url = ''http://localhost:8000'',
      arg_model = ''meta-llama/Meta-Llama-3.1-8B-Instruct'',
      arg_mode = Completion,
      arg_prompt = None,
      arg_system = None,
      arg_user_message = None,
      arg_max_tokens = 512,
      arg_min_tokens = 0,
      arg_temperature = Finite (7 / 10),
      arg_top_p = Finite 1,
      arg_top_k = - 1,
      arg_frequency_penalty = Finite 0,
      arg_presence_penalty = Finite 0,
      arg_repetition_penalty = Finite 1,
      arg_stop = None,
      arg_n = 1,
      arg_best_of = None,
      arg_use_beam_search = False,
      arg_length_penalty = Finite 1,
      arg_echo = False,
      arg_logprobs = None,
      arg_stream = False,
      arg_show_metadata = False,
      arg_json = False\<rparr>"

text \<open>
  A server whose \<open>/health\<close> fails and whose other endpoints answer: one model, and one
  choice that carries both a chat message and a completion text, with its token counts.
\<close>

definition sample_response :: dict where
  "sample_response =
     [(''choices'',
         JList [JObj [(''message'', JObj [(''role'', JStr ''assistant''), (''content'', JStr ''4'')]),
                      (''text'', JStr '' Paris''),
                      (''finish_reason'', JStr ''stop'')]]),
      (''usage'',
         JObj [(''prompt_tokens'', JInt 5), (''completion_tokens'', JInt 3), (''total_tokens'', JInt 8)])]"

definition empty_response :: dict where
  "empty_response =
     [(''choices'', JList []),
      (''usage'',
         JObj [(''prompt_tokens'', JInt 5), (''completion_tokens'', JInt 0), (''total_tokens'', JInt 5)])]"

definition health_down :: world where
  "health_down =
     \<lparr>http_get = (\<lambda>url. if url = ''http://localhost:8000/health'' then RequestException
                         else Reply (Some (JObj [(''data'', JList [JObj [(''id'', JStr ''llama'')]])]))),
      http_post = (\<lambda>url payload. Reply (Some (JObj sample_response))),
      elapsed = 3 / 2\<rparr>"

definition harness_args :: test_args where
  "harness_args =
     \<lparr>t_url = ''http://localhost:8000'',
      t_model = ''meta-llama/Meta-Llama-3.1-8B-Instruct'',
      t_skip_health = False\<rparr>"

section \<open>Facts about dictionaries\<close>

lemma has_key_setitem: "has_key (setitem d k v) k' = (k' = k \<or> has_key d k')"
  by (simp add: has_key_def setitem_def update_conv')

lemma has_key_Cons: "has_key ((k, v) # d) k' = (k' = k \<or> has_key d k')"
  by (auto simp: has_key_def)

lemma has_key_Nil: "has_key [] k' = False"
  by (simp add: has_key_def)

lemma map_of_setitem: "map_of (setitem d k v) = (map_of d)(k \<mapsto> v)"
  by (simp add: setitem_def update_conv')

lemma map_of_py_if_set:
  "map_of (py_if c (\<lambda>p. setitem p k v) d) k' = (if c \<and> k' = k then Some v else map_of d k')"
  by (simp add: py_if_def map_of_setitem)

lemma map_of_py_if_set2:
  "map_of (py_if c (\<lambda>p. setitem (setitem p k v) l w) d) k' =
     (if c \<and> k' = l then Some w else if c \<and> k' = k then Some v else map_of d k')"
  by (simp add: py_if_def map_of_setitem)

lemma has_key_py_if_set:
  "has_key (py_if c (\<lambda>p. setitem p k v) d) k' = ((c \<and> k' = k) \<or> has_key d k')"
  by (simp add: py_if_def has_key_setitem)

lemma has_key_py_if_set2:
  "has_key (py_if c (\<lambda>p. setitem (setitem p k v) l w) d) k' =
     ((c \<and> (k' = k \<or> k' = l)) \<or> has_key d k')"
  by (auto simp add: py_if_def has_key_setitem)

lemmas has_key_simps = has_key_py_if_set has_key_py_if_set2 has_key_Cons has_key_Nil

lemmas map_of_simps = map_of_py_if_set map_of_py_if_set2

section \<open>The optional keys of the completion payload\<close>

lemma completion_top_k: "has_key (completion_payload a) ''top_k'' = (0 < top_k a)"
  by (simp add: completion_payload_def Let_def has_key_simps)

lemma completion_repetition_penalty:
  "has_key (completion_payload a) ''repetition_penalty'' = float_ne (repetition_penalty a) (Finite 1)"
  by (simp add: completion_payload_def Let_def has_key_simps)

lemma completion_stop: "has_key (completion_payload a) ''stop'' = truthy_list (stop a)"
  by (simp add: completion_payload_def Let_def has_key_simps)

lemma completion_best_of: "has_key (completion_payload a) ''best_of'' = truthy_int (best_of a)"
  by (simp add: completion_payload_def Let_def has_key_simps)

lemma completion_logprobs: "has_key (completion_payload a) ''logprobs'' = truthy_int (logprobs a)"
  by (simp add: completion_payload_def Let_def has_key_simps)

lemma completion_min_tokens: "has_key (completion_payload a) ''min_tokens'' = (0 < min_tokens a)"
  by (simp add: completion_payload_def Let_def has_key_simps)

lemma completion_use_beam_search:
  "has_key (completion_payload a) ''use_beam_search'' = use_beam_search a"
  by (simp add: completion_payload_def Let_def has_key_simps)

lemma completion_length_penalty:
  "has_key (completion_payload a) ''length_penalty'' = use_beam_search a"
  by (simp add: completion_payload_def Let_def has_key_simps)

lemmas completion_keys = completion_top_k completion_repetition_penalty completion_stop
  completion_best_of completion_logprobs completion_min_tokens completion_use_beam_search
  completion_length_penalty

text \<open>
  Claim C1, as amended. The payload of \<open>prompt_completion\<close> has no key \<open>top_k\<close>,
  \<open>repetition_penalty\<close>, \<open>stop\<close>, \<open>best_of\<close>, \<open>logprobs\<close>, \<open>min_tokens\<close> or
  \<open>use_beam_search\<close> when that argument has its default (\<open>-1\<close>, \<open>1.0\<close>, \<open>None\<close> or the
  empty list, \<open>None\<close>, \<open>None\<close>, \<open>0\<close>, \<open>False\<close>). The key \<open>length_penalty\<close> does not follow
  its own value: it is in the payload exactly when \<open>use_beam_search\<close> is set, whatever
  the penalty is.
\<close>

theorem C1_defaults_omitted:
  "(top_k a = - 1 \<longrightarrow> \<not> has_key (completion_payload a) ''top_k'')
   \<and> (repetition_penalty a = Finite 1 \<longrightarrow> \<not> has_key (completion_payload a) ''repetition_penalty'')
   \<and> (stop a = None \<or> stop a = Some [] \<longrightarrow> \<not> has_key (completion_payload a) ''stop'')
   \<and> (best_of a = None \<longrightarrow> \<not> has_key (completion_payload a) ''best_of'')
   \<and> (logprobs a = None \<longrightarrow> \<not> has_key (completion_payload a) ''logprobs'')
   \<and> (min_tokens a = 0 \<longrightarrow> \<not> has_key (completion_payload a) ''min_tokens'')
   \<and> (\<not> use_beam_search a \<longrightarrow> \<not> has_key (completion_payload a) ''use_beam_search'')
   \<and> has_key (completion_payload a) ''length_penalty'' = use_beam_search a"
  by (auto simp add: completion_keys float_ne_def truthy_list_def truthy_int_def)

text \<open>The defaults of the signature satisfy every hypothesis, and none of the keys is sent.\<close>

theorem C1_defaults_omitted_witness:
  "top_k default_completion = - 1 \<and> repetition_penalty default_completion = Finite 1
   \<and> stop default_completion = None \<and> best_of default_completion = None
   \<and> logprobs default_completion = None \<and> min_tokens default_completion = 0
   \<and> \<not> use_beam_search default_completion
   \<and> \<not> has_key (completion_payload default_completion) ''top_k''
   \<and> \<not> has_key (completion_payload default_completion) ''repetition_penalty''
   \<and> \<not> has_key (completion_payload default_completion) ''stop''
   \<and> \<not> has_key (completion_payload default_completion) ''best_of''
   \<and> \<not> has_key (completion_payload default_completion) ''logprobs''
   \<and> \<not> has_key (completion_payload default_completion) ''min_tokens''
   \<and> \<not> has_key (completion_payload default_completion) ''use_beam_search''
   \<and> \<not> has_key (completion_payload default_completion) ''length_penalty''"
  using C1_defaults_omitted [of default_completion] by (simp add: default_completion_def)

text \<open>
  Claim C1 as stated fails: with beam search on and the length penalty left at its
  default \<open>1.0\<close>, the payload carries \<open>length_penalty\<close>.
\<close>

theorem C1_length_penalty_counterexample:
  "length_penalty beam_completion = Finite 1
   \<and> has_key (completion_payload beam_completion) ''length_penalty''"
  by (simp add: completion_length_penalty beam_completion_def default_completion_def)

section \<open>The keys of the chat payload, and the values of the optional keys\<close>

lemma py_if_False: "py_if False body d = d"
  by (simp add: py_if_def)

lemma truthy_int_simps: "truthy_int None = False" "truthy_int (Some i) = (i \<noteq> 0)"
  by (simp_all add: truthy_int_def)

lemma chat_best_of: "\<not> has_key (chat_payload a) ''best_of''"
  by (simp add: chat_payload_def Let_def has_key_simps)

lemma chat_logprobs: "has_key (chat_payload a) ''logprobs'' = truthy_int (c_logprobs a)"
  by (simp add: chat_payload_def Let_def has_key_simps)

lemma chat_logprobs_value:
  "map_of (chat_payload a) ''logprobs'' =
     (if truthy_int (c_logprobs a) then Some (json_of_int_opt (c_logprobs a)) else None)"
  by (simp add: chat_payload_def Let_def map_of_simps)

lemma chat_top_k: "has_key (chat_payload a) ''top_k'' = (0 < c_top_k a)"
  by (simp add: chat_payload_def Let_def has_key_simps)

lemma chat_top_k_value:
  "map_of (chat_payload a) ''top_k'' = (if 0 < c_top_k a then Some (JInt (c_top_k a)) else None)"
  by (simp add: chat_payload_def Let_def map_of_simps)

lemma chat_messages_value:
  "map_of (chat_payload a) ''messages'' =
     Some (JList (chat_messages (c_system_message a) (c_user_message a)))"
  by (simp add: chat_payload_def Let_def map_of_simps)

lemma completion_top_k_value:
  "map_of (completion_payload a) ''top_k'' = (if 0 < top_k a then Some (JInt (top_k a)) else None)"
  by (simp add: completion_payload_def Let_def map_of_simps)

lemma completion_best_of_value:
  "map_of (completion_payload a) ''best_of'' =
     (if truthy_int (best_of a) then Some (json_of_int_opt (best_of a)) else None)"
  by (simp add: completion_payload_def Let_def map_of_simps)

lemma completion_logprobs_value:
  "map_of (completion_payload a) ''logprobs'' =
     (if truthy_int (logprobs a) then Some (json_of_int_opt (logprobs a)) else None)"
  by (simp add: completion_payload_def Let_def map_of_simps)

lemma completion_best_of_zero:
  "completion_payload (a\<lparr>best_of := Some 0\<rparr>) = completion_payload (a\<lparr>best_of := None\<rparr>)"
  by (simp add: completion_payload_def Let_def truthy_int_simps py_if_False)

lemma completion_logprobs_zero:
  "completion_payload (a\<lparr>logprobs := Some 0\<rparr>) = completion_payload (a\<lparr>logprobs := None\<rparr>)"
  by (simp add: completion_payload_def Let_def truthy_int_simps py_if_False)

text \<open>
  Claim C2, as amended. The payload of \<open>prompt_chat\<close> never has a key \<open>best_of\<close>. It
  does have a key \<open>logprobs\<close>, exactly when the argument \<open>logprobs\<close> is given and is not
  zero, and the key then holds the argument.
\<close>

theorem C2_chat_best_of_logprobs:
  "\<not> has_key (chat_payload a) ''best_of''
   \<and> has_key (chat_payload a) ''logprobs'' = (c_logprobs a \<noteq> None \<and> c_logprobs a \<noteq> Some 0)
   \<and> map_of (chat_payload a) ''logprobs'' =
       (case c_logprobs a of None \<Rightarrow> None | Some i \<Rightarrow> if i = 0 then None else Some (JInt i))"
  by (simp add: chat_best_of chat_logprobs chat_logprobs_value truthy_int_def json_of_int_opt_def
      split: option.splits)

text \<open>With the defaults of the signature neither key is in the chat payload.\<close>

theorem C2_chat_best_of_logprobs_witness:
  "\<not> has_key (chat_payload default_chat) ''best_of''
   \<and> \<not> has_key (chat_payload default_chat) ''logprobs''
   \<and> map_of (chat_payload default_chat) ''logprobs'' = None"
  using C2_chat_best_of_logprobs [of default_chat] by (simp add: default_chat_def)

text \<open>
  Claim C2 as stated fails for \<open>logprobs\<close>: a chat request with \<open>logprobs = 5\<close> carries
  the key \<open>logprobs\<close> with the value 5.
\<close>

theorem C2_chat_logprobs_counterexample:
  "has_key (chat_payload logprobs_chat) ''logprobs''
   \<and> map_of (chat_payload logprobs_chat) ''logprobs'' = Some (JInt 5)"
  by (simp add: chat_logprobs chat_logprobs_value truthy_int_def json_of_int_opt_def
      logprobs_chat_def default_chat_def)

text \<open>
  Claim C7. The \<open>messages\<close> entry of the chat payload is the list of one user-role
  entry when no system message or the empty one is given, and the list of a system-role
  entry followed by that user-role entry when a non-empty system message is given;
  the list has no other element.
\<close>

theorem C7_chat_messages:
  "map_of (chat_payload a) ''messages'' =
     Some (JList
       (case c_system_message a of
          None \<Rightarrow> [JObj [(''role'', JStr ''user''), (''content'', JStr (c_user_message a))]]
        | Some s \<Rightarrow>
            if s = [] then [JObj [(''role'', JStr ''user''), (''content'', JStr (c_user_message a))]]
            else [JObj [(''role'', JStr ''system''), (''content'', JStr s)],
                  JObj [(''role'', JStr ''user''), (''content'', JStr (c_user_message a))]]))"
  by (simp add: chat_messages_value chat_messages_def truthy_str_def json_of_str_opt_def
      split: option.splits)

text \<open>The two shapes, for a request with a system message and for one without.\<close>

theorem C7_chat_messages_witness:
  "map_of (chat_payload system_chat) ''messages'' =
     Some (JList [JObj [(''role'', JStr ''system''), (''content'', JStr ''Be brief'')],
                  JObj [(''role'', JStr ''user''), (''content'', JStr ''Hello'')]])
   \<and> map_of (chat_payload default_chat) ''messages'' =
     Some (JList [JObj [(''role'', JStr ''user''), (''content'', JStr ''Hello'')]])"
  using C7_chat_messages [of system_chat] C7_chat_messages [of default_chat]
  by (simp add: system_chat_def default_chat_def)

text \<open>
  Claim C9. Both payloads have the key \<open>top_k\<close> exactly when \<open>top_k > 0\<close>, and the key
  then holds the argument; with \<open>top_k = 0\<close> neither payload has the key.
\<close>

theorem C9_top_k:
  "has_key (completion_payload a) ''top_k'' = (0 < top_k a)
   \<and> has_key (chat_payload c) ''top_k'' = (0 < c_top_k c)
   \<and> map_of (completion_payload a) ''top_k'' = (if 0 < top_k a then Some (JInt (top_k a)) else None)
   \<and> map_of (chat_payload c) ''top_k'' = (if 0 < c_top_k c then Some (JInt (c_top_k c)) else None)
   \<and> \<not> has_key (completion_payload (a\<lparr>top_k := 0\<rparr>)) ''top_k''
   \<and> \<not> has_key (chat_payload (c\<lparr>c_top_k := 0\<rparr>)) ''top_k''"
  by (simp add: completion_top_k chat_top_k completion_top_k_value chat_top_k_value)

text \<open>\<open>top_k = 0\<close> is left out and \<open>top_k = 40\<close> is sent, by both builders.\<close>

theorem C9_top_k_witness:
  "\<not> has_key (completion_payload (default_completion\<lparr>top_k := 0\<rparr>)) ''top_k''
   \<and> \<not> has_key (chat_payload (default_chat\<lparr>c_top_k := 0\<rparr>)) ''top_k''
   \<and> map_of (completion_payload (default_completion\<lparr>top_k := 40\<rparr>)) ''top_k'' = Some (JInt 40)
   \<and> map_of (chat_payload (default_chat\<lparr>c_top_k := 40\<rparr>)) ''top_k'' = Some (JInt 40)"
  using C9_top_k [of default_completion default_chat]
    C9_top_k [of "default_completion\<lparr>top_k := 40\<rparr>" "default_chat\<lparr>c_top_k := 40\<rparr>"]
  by simp

text \<open>
  Claim C10. The payload of \<open>prompt_completion\<close> has the key \<open>best_of\<close> (\<open>logprobs\<close>)
  exactly when the argument is given and is not zero, and the key then holds the
  argument; the payload built with the argument 0 is the payload built with \<open>None\<close>.
\<close>

theorem C10_falsy_best_of_logprobs:
  "has_key (completion_payload a) ''best_of'' = (best_of a \<noteq> None \<and> best_of a \<noteq> Some 0)
   \<and> has_key (completion_payload a) ''logprobs'' = (logprobs a \<noteq> None \<and> logprobs a \<noteq> Some 0)
   \<and> map_of (completion_payload a) ''best_of'' =
     (case best_of a of None \<Rightarrow> None | Some i \<Rightarrow> if i = 0 then None else Some (JInt i))
   \<and> map_of (completion_payload a) ''logprobs'' =
     (case logprobs a of None \<Rightarrow> None | Some i \<Rightarrow> if i = 0 then None else Some (JInt i))
   \<and> completion_payload (a\<lparr>best_of := Some 0\<rparr>) = completion_payload (a\<lparr>best_of := None\<rparr>)
   \<and> completion_payload (a\<lparr>logprobs := Some 0\<rparr>) = completion_payload (a\<lparr>logprobs := None\<rparr>)"
  by (simp add: completion_best_of completion_logprobs completion_best_of_value
      completion_logprobs_value completion_best_of_zero completion_logprobs_zero
      truthy_int_def json_of_int_opt_def split: option.splits)

text \<open>At the defaults, where both arguments are \<open>None\<close>.\<close>

theorem C10_falsy_best_of_logprobs_witness:
  "\<not> has_key (completion_payload default_completion) ''best_of''
   \<and> \<not> has_key (completion_payload default_completion) ''logprobs''
   \<and> completion_payload (default_completion\<lparr>best_of := Some 0\<rparr>)
       = completion_payload (default_completion\<lparr>best_of := None\<rparr>)
   \<and> completion_payload (default_completion\<lparr>logprobs := Some 0\<rparr>)
       = completion_payload (default_completion\<lparr>logprobs := None\<rparr>)"
  using C10_falsy_best_of_logprobs [of default_completion]
  by (simp add: default_completion_def)

end
